theory Spec2Isabelle
  imports Main "HOL-Library.Sublist"
begin

section \<open>Python strings\<close>

text \<open>
  Strings are \<^typ>\<open>string\<close>. The operations below are the ones the scripts use:
  \<^verbatim>\<open>s.lower()\<close>, \<^verbatim>\<open>k in s\<close>, \<^verbatim>\<open>s.startswith(p)\<close>, \<^verbatim>\<open>sep.join(xs)\<close>,
  \<^verbatim>\<open>s.split(sep)\<close> and \<^verbatim>\<open>s.strip()\<close>.

  A \<^typ>\<open>char\<close> is a code point below 256. On these \<^verbatim>\<open>str.lower()\<close> works character by
  character: it maps the upper-case letters, which are 65 to 90 (A to Z), 192 to 214 and
  216 to 222 (the accented capitals, 215 being the multiplication sign), to the code point
  32 further on and leaves every other character. The white space \<^verbatim>\<open>str.strip()\<close>
  removes is 9 to 13, 28 to 32, 133 and 160.
\<close>

definition is_upper :: "char \<Rightarrow> bool" where
  "is_upper c =
     (let n = (of_char c :: nat)
      in (65 \<le> n \<and> n \<le> 90) \<or> (192 \<le> n \<and> n \<le> 214) \<or> (216 \<le> n \<and> n \<le> 222))"

definition lower_char :: "char \<Rightarrow> char" where
  "lower_char c = (if is_upper c then char_of ((of_char c :: nat) + 32) else c)"

definition lower :: "string \<Rightarrow> string" where
  "lower s = map lower_char s"

definition str_in :: "string \<Rightarrow> string \<Rightarrow> bool" where
  "str_in k s = sublist k s"

definition startswith :: "string \<Rightarrow> string \<Rightarrow> bool" where
  "startswith s p = prefix p s"

fun join :: "string \<Rightarrow> string list \<Rightarrow> string" where
  "join sep [] = []"
| "join sep [x] = x"
| "join sep (x # y # ys) = x @ sep @ join sep (y # ys)"

text \<open>
  \<^verbatim>\<open>s.split(sep)\<close> for a non-empty separator: the pieces between the occurrences of
  \<^verbatim>\<open>sep\<close>, found from the left without overlap. \<open>cur\<close> is the piece being read.
  (Python raises on an empty separator; the scripts only split at literals.)
\<close>

function split_from :: "string \<Rightarrow> string \<Rightarrow> string \<Rightarrow> string list" where
  "split_from sep cur [] = [cur]"
| "split_from sep cur (c # cs) =
     (if sep \<noteq> [] \<and> prefix sep (c # cs)
      then cur # split_from sep [] (drop (length sep) (c # cs))
      else split_from sep (cur @ [c]) cs)"
  by pat_completeness auto
termination
  by (relation "measure (\<lambda>(sep, cur, s). length s)") auto

definition split :: "string \<Rightarrow> string \<Rightarrow> string list" where
  "split s sep = split_from sep [] s"

definition is_space :: "char \<Rightarrow> bool" where
  "is_space c = ((of_char c :: nat) \<in> {9, 10, 11, 12, 13, 28, 29, 30, 31, 32, 133, 160})"

definition strip :: "string \<Rightarrow> string" where
  "strip s = rev (dropWhile is_space (rev (dropWhile is_space s)))"

section \<open>spotify.py: the exclusion predicate\<close>

text \<open>
  The part of a track's detail record that \<^verbatim>\<open>should_exclude_track\<close> reads:
  \<^verbatim>\<open>track['name']\<close>, \<^verbatim>\<open>track['album']['name']\<close>, \<^verbatim>\<open>track['album'].get('label', '')\<close>
  and \<^verbatim>\<open>artist['name']\<close> for each entry of \<^verbatim>\<open>track['artists']\<close>.
\<close>

record artist =
  artist_name :: string

record album =
  album_name :: string
  album_label :: "string option"

record track =
  track_name :: string
  track_album :: album
  track_artists :: "artist list"

definition record_label :: "track \<Rightarrow> string" where
  "record_label t = (case album_label (track_album t) of None \<Rightarrow> [] | Some l \<Rightarrow> l)"

definition should_exclude_track :: "track \<Rightarrow> string \<Rightarrow> bool" where
  "should_exclude_track t keyword =
     (let name = lower (track_name t);
          album_nm = lower (album_name (track_album t));
          artist_names = join '' '' (map (\<lambda>a. lower (artist_name a)) (track_artists t));
          label = lower (record_label t)
      in list_ex (\<lambda>field. str_in keyword field) [name, album_nm, artist_names, label])"

text \<open>The case-insensitive substring test the specification speaks of.\<close>

definition ci_in :: "string \<Rightarrow> string \<Rightarrow> bool" where
  "ci_in k s = str_in (lower k) (lower s)"

section \<open>analyzer.py: playlist-id extraction\<close>

datatype value_error =
  Please_provide_url
  | Invalid_url_format
  | Invalid_reference_format

definition extract_playlist_id :: "string \<Rightarrow> value_error + string" where
  "extract_playlist_id url =
     (if url = [] then Inl Please_provide_url
      else if startswith url ''spotify:playlist:'' then Inr (last (split url '':''))
      else if str_in ''open.spotify.com'' url then
        (let playlist_id = hd (split (last (split url ''playlist/'')) ''?'')
         in if playlist_id = [] then Inl Invalid_url_format else Inr playlist_id)
      else if length (strip url) = 22 then Inr (strip url)
      else Inl Invalid_reference_format)"

section \<open>The batcher\<close>

text \<open>
  Every write loop has the shape
  \<^verbatim>\<open>for i in range(0, len(xs), B): batch = xs[i:i + B]\<close>
  with \<^verbatim>\<open>B\<close> the constant 100 (\<^verbatim>\<open>spotify.py\<close>, \<^verbatim>\<open>clean.py\<close>, \<^verbatim>\<open>remove.py\<close>) or 50
  (\<^verbatim>\<open>analyzer.py\<close>). \<open>batch_loop B i xs\<close> is the list of the slices from index \<open>i\<close> on;
  \<^verbatim>\<open>range\<close> raises on a step of 0, which is \<open>None\<close> here.
\<close>

function batch_loop :: "nat \<Rightarrow> nat \<Rightarrow> 'a list \<Rightarrow> 'a list list" where
  "batch_loop B i xs =
     (if 0 < B \<and> i < length xs then take B (drop i xs) # batch_loop B (i + B) xs else [])"
  by pat_completeness auto
termination
  by (relation "measure (\<lambda>(B, i, xs). length xs - i)") auto

definition batches :: "nat \<Rightarrow> 'a list \<Rightarrow> 'a list list option" where
  "batches B xs = (if B = 0 then None else Some (batch_loop B 0 xs))"

text \<open>\<^verbatim>\<open>total_batches = (len(track_ids) + BATCH_SIZE - 1) // BATCH_SIZE\<close>\<close>

definition total_batches :: "nat \<Rightarrow> nat \<Rightarrow> nat" where
  "total_batches L B = (L + B - 1) div B"

section \<open>The remote calls and their effects\<close>

text \<open>
  A call of the client library returns, raises \<^verbatim>\<open>spotipy.exceptions.SpotifyException\<close>
  (with its \<^verbatim>\<open>http_status\<close> and what \<^verbatim>\<open>e.headers\<close> holds under \<^verbatim>\<open>'Retry-After'\<close>) or
  raises something else. The header is absent, or \<^verbatim>\<open>int()\<close> reads a number of seconds from
  it, or \<^verbatim>\<open>int()\<close> raises on it. The remote side is a function from the number of calls
  made so far and the argument to the outcome of the call.

  The world records what a run does: how many calls it made, the batches it passed to the
  write calls, the pauses of \<^verbatim>\<open>time.sleep\<close> and the lines it printed.
\<close>

datatype retry_header = No_header | Seconds int | Malformed

datatype 'a outcome =
  Returns 'a
  | SpotifyException nat retry_header
  | OtherException

datatype exn = Spotify_error nat | Other_error | Value_error

datatype call_context = Processing_track string | Adding_batch nat

datatype message =
  Rate_limit_reached int nat nat
  | Error_in call_context
  | Unexpected_error call_context
  | Processing_tracks nat
  | Processed_tracks nat nat
  | Finished_processing nat
  | Adding_in_batches nat
  | Added_batch nat nat nat
  | No_duplicates_found
  | Found_duplicates nat
  | Removed_batch nat nat
  | Removed_duplicates nat
  | No_matching_tracks
  | Removing_tracks nat
  | Error_removing_batch
  | Removed_tracks nat

record world =
  api_calls :: nat
  written :: "string list list"
  slept :: "nat list"
  printed :: "message list"

definition sleep :: "nat \<Rightarrow> world \<Rightarrow> world" where
  "sleep d w = w\<lparr>slept := slept w @ [d]\<rparr>"

definition print :: "message \<Rightarrow> world \<Rightarrow> world" where
  "print m w = w\<lparr>printed := printed w @ [m]\<rparr>"

definition called :: "world \<Rightarrow> world" where
  "called w = w\<lparr>api_calls := api_calls w + 1\<rparr>"

definition wrote :: "string list \<Rightarrow> world \<Rightarrow> world" where
  "wrote batch w = w\<lparr>api_calls := api_calls w + 1, written := written w @ [batch]\<rparr>"

definition RATE_LIMIT_DELAY :: nat where
  "RATE_LIMIT_DELAY = 1"

definition BATCH_SIZE :: nat where
  "BATCH_SIZE = 100"

definition world0 :: world where
  "world0 = \<lparr>api_calls = 0, written = [], slept = [], printed = []\<rparr>"

section \<open>The paginators\<close>

text \<open>
  A page of \<^verbatim>\<open>sp.playlist_tracks\<close>: \<^verbatim>\<open>response['items']\<close>, each item with a
  \<^verbatim>\<open>'track'\<close> that may be \<^verbatim>\<open>None\<close>, and \<^verbatim>\<open>response['total']\<close>. A track has an
  \<^verbatim>\<open>'id'\<close>, which the service leaves \<^verbatim>\<open>None\<close> for a local file, and a \<^verbatim>\<open>'uri'\<close>.
  The remote source is a function from the offset asked for to the page it answers with.
  The loops are \<^verbatim>\<open>while True\<close> loops, so they are partial functions: \<open>None\<close> is a loop
  that never leaves. Each returns what it accumulated and the world, in which
  \<open>api_calls\<close> counts the calls of the fetch function.
\<close>

record track_ref =
  ref_id :: "string option"
  ref_uri :: string

type_synonym item = "track_ref option"

record response =
  resp_items :: "item list"
  resp_total :: nat

text \<open>\<^verbatim>\<open>[item['track'] for item in response['items'] if item['track']]\<close>\<close>

definition present_tracks :: "item list \<Rightarrow> track_ref list" where
  "present_tracks its = List.map_filter (\<lambda>it. it) its"



text \<open>\<^verbatim>\<open>clean.py\<close>, \<^verbatim>\<open>SpotifyPlaylistCleaner.get_playlist_tracks\<close>: (id, uri) pairs.\<close>

partial_function (option) clean_pages ::
  "(nat \<Rightarrow> response) \<Rightarrow> nat \<Rightarrow> track_ref list \<Rightarrow> world \<Rightarrow> (track_ref list \<times> world) option" where
  [code]: "clean_pages fetch offset track_list w =
     (let response = fetch offset;
          w1 = called w;
          track_list' = track_list @ present_tracks (resp_items response)
      in if length (resp_items response) < 100 then Some (track_list', w1)
         else clean_pages fetch (offset + 100) track_list' w1)"

definition clean_get_playlist_tracks ::
  "(nat \<Rightarrow> response) \<Rightarrow> world \<Rightarrow> (track_ref list \<times> world) option" where
  "clean_get_playlist_tracks fetch w = clean_pages fetch 0 [] w"

text \<open>\<^verbatim>\<open>remove.py\<close>, \<^verbatim>\<open>SpotifyTrackRemover.get_playlist_tracks\<close>: ids only.\<close>

partial_function (option) remove_pages ::
  "(nat \<Rightarrow> response) \<Rightarrow> nat \<Rightarrow> string option list \<Rightarrow> world
     \<Rightarrow> (string option list \<times> world) option" where
  [code]: "remove_pages fetch offset existing_tracks w =
     (let response = fetch offset;
          w1 = called w;
          existing_tracks' = existing_tracks @ map ref_id (present_tracks (resp_items response))
      in if length (resp_items response) < 100 then Some (existing_tracks', w1)
         else remove_pages fetch (offset + 100) existing_tracks' w1)"

definition remove_get_playlist_tracks ::
  "(nat \<Rightarrow> response) \<Rightarrow> world \<Rightarrow> (string option list \<times> world) option" where
  "remove_get_playlist_tracks fetch w = remove_pages fetch 0 [] w"

text \<open>
  A fake source for the paginators: a playlist of items \<open>xs\<close> served in pages of
  \<open>page_size\<close>, every page reporting the length of the playlist as the total.
\<close>

definition fake_source :: "nat \<Rightarrow> item list \<Rightarrow> nat \<Rightarrow> response" where
  "fake_source page_size xs offset =
     \<lparr>resp_items = take page_size (drop offset xs), resp_total = length xs\<rparr>"


section \<open>spotify.py: the retry wrapper\<close>

text \<open>
  \<^verbatim>\<open>_handle_rate_limit\<close>. On status 429 it counts the attempt, reads the wait with
  \<^verbatim>\<open>int(e.headers.get('Retry-After', self.RATE_LIMIT_DELAY))\<close>, prints and sleeps.
  \<^verbatim>\<open>int()\<close> raises \<^verbatim>\<open>ValueError\<close> on a header it cannot read, before the print, and
  \<^verbatim>\<open>time.sleep\<close> raises it on a negative number, after the print. The handler runs inside
  an \<^verbatim>\<open>except\<close> clause of its caller, so its exception leaves the caller too.
\<close>

definition handle_rate_limit ::
  "nat \<Rightarrow> retry_header \<Rightarrow> nat \<Rightarrow> nat \<Rightarrow> call_context \<Rightarrow> world \<Rightarrow> (exn + nat) \<times> world" where
  "handle_rate_limit http_status header retry_count max_retries ctx w =
     (if http_status = 429 then
        (let retry_count' = retry_count + 1 in
         case header of
           No_header \<Rightarrow>
             (Inr retry_count',
              sleep RATE_LIMIT_DELAY
                (print (Rate_limit_reached (int RATE_LIMIT_DELAY) retry_count' max_retries) w))
         | Seconds retry_after \<Rightarrow>
             (if retry_after < 0
              then (Inl Value_error, print (Rate_limit_reached retry_after retry_count' max_retries) w)
              else (Inr retry_count',
                    sleep (nat retry_after)
                      (print (Rate_limit_reached retry_after retry_count' max_retries) w)))
         | Malformed \<Rightarrow> (Inl Value_error, w))
      else (Inr max_retries, print (Error_in ctx) w))"

text \<open>
  \<^verbatim>\<open>_process_track_with_retry\<close>: \<open>Inr (Some track_id)\<close> and \<open>Inr None\<close> are its two
  return values, \<open>Inl\<close> an exception that leaves it.
\<close>

function process_track_loop ::
  "(nat \<Rightarrow> string \<Rightarrow> track outcome) \<Rightarrow> string \<Rightarrow> string \<Rightarrow> nat \<Rightarrow> nat \<Rightarrow> world
     \<Rightarrow> (exn + string option) \<times> world" where
  "process_track_loop sp_track track_id exclude_keyword max_retries retry_count w =
     (if retry_count < max_retries then
        (case sp_track (api_calls w) track_id of
           Returns t \<Rightarrow>
             (if \<not> should_exclude_track t exclude_keyword then (Inr (Some track_id), called w)
              else (Inr None, called w))
         | SpotifyException http_status header \<Rightarrow>
             (case handle_rate_limit http_status header retry_count max_retries
                     (Processing_track track_id) (called w) of
                (Inl e, w') \<Rightarrow> (Inl e, w')
              | (Inr retry_count', w') \<Rightarrow>
                  process_track_loop sp_track track_id exclude_keyword max_retries retry_count' w')
         | OtherException \<Rightarrow>
             (Inr None, print (Unexpected_error (Processing_track track_id)) (called w)))
      else (Inr None, w))"
  by pat_completeness auto
termination
  by (relation "measure (\<lambda>(sp_track, track_id, exclude_keyword, max_retries, retry_count, w).
                  max_retries - retry_count)")
     (auto simp: handle_rate_limit_def Let_def split: if_splits retry_header.splits)

definition process_track_with_retry ::
  "(nat \<Rightarrow> string \<Rightarrow> track outcome) \<Rightarrow> string \<Rightarrow> string \<Rightarrow> world
     \<Rightarrow> (exn + string option) \<times> world" where
  "process_track_with_retry sp_track track_id exclude_keyword w =
     process_track_loop sp_track track_id exclude_keyword 3 0 w"

text \<open>
  \<^verbatim>\<open>filter_tracks\<close>: \<open>i\<close> counts the tracks from 1; the walrus test
  \<^verbatim>\<open>if processed_track_id := ...\<close> also drops an empty id. The loop has no \<^verbatim>\<open>try\<close>.
\<close>

fun filter_loop ::
  "(nat \<Rightarrow> string \<Rightarrow> track outcome) \<Rightarrow> string \<Rightarrow> nat \<Rightarrow> nat \<Rightarrow> string list \<Rightarrow> string list
     \<Rightarrow> world \<Rightarrow> (exn + string list) \<times> world" where
  "filter_loop sp_track exclude_keyword total_tracks i [] filtered_tracks w =
     (Inr filtered_tracks, w)"
| "filter_loop sp_track exclude_keyword total_tracks i (track_id # rest) filtered_tracks w =
     (case process_track_with_retry sp_track track_id exclude_keyword w of
        (Inl e, w') \<Rightarrow> (Inl e, w')
      | (Inr processed, w') \<Rightarrow>
          (let filtered_tracks' =
                 (case processed of
                    Some processed_track_id \<Rightarrow>
                      if processed_track_id \<noteq> [] then filtered_tracks @ [processed_track_id]
                      else filtered_tracks
                  | None \<Rightarrow> filtered_tracks);
               w1 = (if i mod 50 = 0 then print (Processed_tracks i total_tracks) w' else w');
               w2 = (if i mod 10 = 0 then sleep RATE_LIMIT_DELAY w1 else w1)
           in filter_loop sp_track exclude_keyword total_tracks (i + 1) rest filtered_tracks' w2))"

definition filter_tracks ::
  "(nat \<Rightarrow> string \<Rightarrow> track outcome) \<Rightarrow> string list \<Rightarrow> string \<Rightarrow> world
     \<Rightarrow> (exn + string list) \<times> world" where
  "filter_tracks sp_track track_ids exclude_keyword w =
     (let total_tracks = length track_ids in
      case filter_loop sp_track exclude_keyword total_tracks 1 track_ids []
             (print (Processing_tracks total_tracks) w) of
        (Inl e, w') \<Rightarrow> (Inl e, w')
      | (Inr filtered_tracks, w') \<Rightarrow>
          (Inr filtered_tracks, print (Finished_processing (length filtered_tracks)) w'))"

text \<open>\<^verbatim>\<open>_add_batch_with_retry\<close>, the same loop around \<^verbatim>\<open>sp.playlist_add_items\<close>.\<close>

function add_batch_loop ::
  "(nat \<Rightarrow> string list \<Rightarrow> unit outcome) \<Rightarrow> string list \<Rightarrow> nat \<Rightarrow> nat \<Rightarrow> nat \<Rightarrow> nat \<Rightarrow> world
     \<Rightarrow> (exn + bool) \<times> world" where
  "add_batch_loop sp_add batch batch_number n_batches max_retries retry_count w =
     (if retry_count < max_retries then
        (case sp_add (api_calls w) batch of
           Returns u \<Rightarrow>
             (Inr True, print (Added_batch batch_number n_batches (length batch)) (wrote batch w))
         | SpotifyException http_status header \<Rightarrow>
             (case handle_rate_limit http_status header retry_count max_retries
                     (Adding_batch batch_number) (wrote batch w) of
                (Inl e, w') \<Rightarrow> (Inl e, w')
              | (Inr retry_count', w') \<Rightarrow>
                  add_batch_loop sp_add batch batch_number n_batches max_retries retry_count' w')
         | OtherException \<Rightarrow>
             (Inr False, print (Unexpected_error (Adding_batch batch_number)) (wrote batch w)))
      else (Inr False, w))"
  by pat_completeness auto
termination
  by (relation "measure (\<lambda>(sp_add, batch, batch_number, n_batches, max_retries, retry_count, w).
                  max_retries - retry_count)")
     (auto simp: handle_rate_limit_def Let_def split: if_splits retry_header.splits)

definition add_batch_with_retry ::
  "(nat \<Rightarrow> string list \<Rightarrow> unit outcome) \<Rightarrow> string list \<Rightarrow> nat \<Rightarrow> nat \<Rightarrow> world
     \<Rightarrow> (exn + bool) \<times> world" where
  "add_batch_with_retry sp_add batch batch_number n_batches w =
     add_batch_loop sp_add batch batch_number n_batches 3 0 w"

text \<open>
  \<^verbatim>\<open>add_tracks_to_playlist\<close>: the loop over the batches, \<open>batch_number\<close> being
  \<^verbatim>\<open>(i // BATCH_SIZE) + 1\<close>, the position of the batch counted from 1. \<open>None\<close> is a
  normal return.
\<close>

fun add_batches ::
  "(nat \<Rightarrow> string list \<Rightarrow> unit outcome) \<Rightarrow> nat \<Rightarrow> nat \<Rightarrow> string list list \<Rightarrow> world
     \<Rightarrow> exn option \<times> world" where
  "add_batches sp_add n_batches batch_number [] w = (None, w)"
| "add_batches sp_add n_batches batch_number (batch # rest) w =
     (case add_batch_with_retry sp_add batch batch_number n_batches w of
        (Inl e, w') \<Rightarrow> (Some e, w')
      | (Inr success, w') \<Rightarrow>
          add_batches sp_add n_batches (batch_number + 1) rest
            (if success \<and> batch_number < n_batches then sleep RATE_LIMIT_DELAY w' else w'))"

definition add_tracks_to_playlist ::
  "(nat \<Rightarrow> string list \<Rightarrow> unit outcome) \<Rightarrow> string list \<Rightarrow> world \<Rightarrow> exn option \<times> world" where
  "add_tracks_to_playlist sp_add track_ids w =
     (let n_batches = total_batches (length track_ids) BATCH_SIZE
      in add_batches sp_add n_batches 1 (batch_loop BATCH_SIZE 0 track_ids)
           (print (Adding_in_batches n_batches) w))"

section \<open>clean.py: removing duplicates\<close>

text \<open>The scan of \<^verbatim>\<open>remove_duplicate_tracks\<close> with its two accumulators.\<close>

fun scan_duplicates ::
  "track_ref list \<Rightarrow> string option set \<Rightarrow> string list \<Rightarrow> string option set \<times> string list" where
  "scan_duplicates [] seen_tracks duplicates = (seen_tracks, duplicates)"
| "scan_duplicates (t # ts) seen_tracks duplicates =
     (if ref_id t \<in> seen_tracks then scan_duplicates ts seen_tracks (duplicates @ [ref_uri t])
      else scan_duplicates ts (insert (ref_id t) seen_tracks) duplicates)"

text \<open>
  The removal loop of \<^verbatim>\<open>clean.py\<close> has no \<^verbatim>\<open>try\<close>: an exception of the removal call leaves
  the loop and the function. \<open>n\<close> is \<^verbatim>\<open>i // 100\<close>, \<open>len\<close> is \<^verbatim>\<open>len(duplicates)\<close>.
\<close>

fun clean_remove_batches ::
  "(nat \<Rightarrow> string list \<Rightarrow> unit outcome) \<Rightarrow> nat \<Rightarrow> nat \<Rightarrow> string list list \<Rightarrow> world
     \<Rightarrow> exn option \<times> world" where
  "clean_remove_batches sp_remove len n [] w = (None, w)"
| "clean_remove_batches sp_remove len n (batch # rest) w =
     (case sp_remove (api_calls w) batch of
        Returns u \<Rightarrow>
          clean_remove_batches sp_remove len (n + 1) rest
            (sleep RATE_LIMIT_DELAY (print (Removed_batch (n + 1) (len div 100 + 1)) (wrote batch w)))
      | SpotifyException http_status header \<Rightarrow> (Some (Spotify_error http_status), wrote batch w)
      | OtherException \<Rightarrow> (Some Other_error, wrote batch w))"

definition remove_duplicates_of ::
  "(nat \<Rightarrow> string list \<Rightarrow> unit outcome) \<Rightarrow> track_ref list \<Rightarrow> world \<Rightarrow> exn option \<times> world" where
  "remove_duplicates_of sp_remove tracks w =
     (let duplicates = snd (scan_duplicates tracks {} [])
      in if duplicates = [] then (None, print No_duplicates_found w)
         else
           (case clean_remove_batches sp_remove (length duplicates) 0
                   (batch_loop 100 0 duplicates)
                   (print (Found_duplicates (length duplicates)) w) of
              (Some e, w') \<Rightarrow> (Some e, w')
            | (None, w') \<Rightarrow> (None, print (Removed_duplicates (length duplicates)) w')))"

definition remove_duplicate_tracks ::
  "(nat \<Rightarrow> response) \<Rightarrow> (nat \<Rightarrow> string list \<Rightarrow> unit outcome) \<Rightarrow> world
     \<Rightarrow> (exn option \<times> world) option" where
  "remove_duplicate_tracks fetch sp_remove w =
     (case clean_get_playlist_tracks fetch w of
        None \<Rightarrow> None
      | Some (tracks, w') \<Rightarrow> Some (remove_duplicates_of sp_remove tracks w'))"

section \<open>remove.py: removing tracks by id\<close>

text \<open>\<^verbatim>\<open>f"spotify:track:{track_id}"\<close>\<close>

definition track_uri :: "string \<Rightarrow> string" where
  "track_uri track_id = ''spotify:track:'' @ track_id"

text \<open>Here every removal call sits in a \<^verbatim>\<open>try\<close> whose handler prints and goes on.\<close>

fun remove_batches ::
  "(nat \<Rightarrow> string list \<Rightarrow> unit outcome) \<Rightarrow> nat \<Rightarrow> nat \<Rightarrow> string list list \<Rightarrow> world \<Rightarrow> world" where
  "remove_batches sp_remove len n [] w = w"
| "remove_batches sp_remove len n (batch # rest) w =
     (case sp_remove (api_calls w) batch of
        Returns u \<Rightarrow>
          remove_batches sp_remove len (n + 1) rest
            (sleep RATE_LIMIT_DELAY (print (Removed_batch (n + 1) (len div 100 + 1)) (wrote batch w)))
      | SpotifyException http_status header \<Rightarrow>
          remove_batches sp_remove len (n + 1) rest (print Error_removing_batch (wrote batch w))
      | OtherException \<Rightarrow>
          remove_batches sp_remove len (n + 1) rest (print Error_removing_batch (wrote batch w)))"

text \<open>
  \<^verbatim>\<open>remove_tracks_from_playlist\<close> after the fetch: \<open>fetched\<close> is what
  \<^verbatim>\<open>get_playlist_tracks\<close> returned. A requested id is a string, so it is in the set when
  the set holds that string.
\<close>

definition remove_listed_tracks ::
  "(nat \<Rightarrow> string list \<Rightarrow> unit outcome) \<Rightarrow> string option list \<Rightarrow> string list \<Rightarrow> world \<Rightarrow> world" where
  "remove_listed_tracks sp_remove fetched track_ids_to_remove w =
     (let existing_tracks = set fetched;
          tracks_to_remove =
            map track_uri
              (filter (\<lambda>track_id. Some track_id \<in> existing_tracks) track_ids_to_remove)
      in if tracks_to_remove = [] then print No_matching_tracks w
         else
           print (Removed_tracks (length tracks_to_remove))
             (remove_batches sp_remove (length tracks_to_remove) 0
                (batch_loop 100 0 tracks_to_remove)
                (print (Removing_tracks (length tracks_to_remove)) w)))"

definition remove_tracks_from_playlist ::
  "(nat \<Rightarrow> response) \<Rightarrow> (nat \<Rightarrow> string list \<Rightarrow> unit outcome) \<Rightarrow> string list \<Rightarrow> world
     \<Rightarrow> world option" where
  "remove_tracks_from_playlist fetch sp_remove track_ids_to_remove w =
     (case remove_get_playlist_tracks fetch w of
        None \<Rightarrow> None
      | Some (fetched, w') \<Rightarrow>
          Some (remove_listed_tracks sp_remove fetched track_ids_to_remove w'))"

section \<open>Sample data\<close>

definition lofi_beats_track :: track where
  "lofi_beats_track =
     \<lparr>track_name = ''Night Drive'',
      track_album = \<lparr>album_name = ''Lofi Beats'', album_label = None\<rparr>,
      track_artists = [\<lparr>artist_name = ''Ana''\<rparr>, \<lparr>artist_name = ''Bo''\<rparr>]\<rparr>"

text \<open>A playlist item whose track has the id \<open>i\<close> and the uri \<^verbatim>\<open>spotify:track:i\<close>.\<close>

definition playlist_item :: "string \<Rightarrow> item" where
  "playlist_item i = Some \<lparr>ref_id = Some i, ref_uri = track_uri i\<rparr>"


text \<open>A remote side on which every write call returns.\<close>

definition always_returns :: "nat \<Rightarrow> string list \<Rightarrow> unit outcome" where
  "always_returns n batch = Returns ()"

text \<open>
  The header of a rate-limited answer that suggests a wait of \<open>d\<close> seconds, or suggests
  none, and the time the handler then sleeps.
\<close>

definition retry_after :: "nat option \<Rightarrow> retry_header" where
  "retry_after suggestion = (case suggestion of None \<Rightarrow> No_header | Some d \<Rightarrow> Seconds (int d))"




text \<open>
  A remote side whose first write call fails with status 500, and a playlist of 102
  copies of one track.
\<close>

definition fails_first :: "nat \<Rightarrow> string list \<Rightarrow> unit outcome" where
  "fails_first n batch = (if n = 0 then SpotifyException 500 No_header else Returns ())"

definition copies_102 :: "track_ref list" where
  "copies_102 = replicate 102 \<lparr>ref_id = Some ''a'', ref_uri = ''spotify:track:a''\<rparr>"

text \<open>A catalogue in which the track b is the sample track and every other track is plain.\<close>

definition catalogue :: "nat \<Rightarrow> string \<Rightarrow> track outcome" where
  "catalogue n track_id =
     (if track_id = ''b'' then Returns lofi_beats_track
      else Returns \<lparr>track_name = ''Morning'',
                    track_album = \<lparr>album_name = ''Daylight'', album_label = Some ''Indie''\<rparr>,
                    track_artists = [\<lparr>artist_name = ''Cy''\<rparr>]\<rparr>)"

section \<open>Properties of the batcher\<close>

declare batch_loop.simps [simp del]

lemma ceil_step:
  fixes n B :: nat
  assumes "0 < B" "0 < n"
  shows "Suc ((n - B + B - 1) div B) = (n + B - 1) div B"
proof -
  from assms(2) obtain m where n: "n = Suc m" by (cases n) auto
  have r: "(n + B - 1) div B = Suc (m div B)"
  proof -
    have "n + B - 1 = m + B" by (simp add: n)
    then have "(n + B - 1) div B = (m + B) div B" by (rule arg_cong)
    also have "\<dots> = Suc (m div B)" using assms(1) div_add_self2 [of B m] by simp
    finally show ?thesis .
  qed
  show ?thesis
  proof (cases "B \<le> n")
    case True
    then have "n - B + B - 1 = m" by (simp add: n)
    then have "(n - B + B - 1) div B = m div B" by (rule arg_cong)
    with r show ?thesis by (simp only:)
  next
    case False
    then have "n - B + B - 1 = B - 1" by simp
    then have "(n - B + B - 1) div B = (B - 1) div B" by (rule arg_cong)
    also have "\<dots> = 0" using assms(1) by simp
    finally have l: "(n - B + B - 1) div B = 0" .
    from False have "m < B" by (simp add: n)
    then have "m div B = 0" by simp
    with r l show ?thesis by (simp only:)
  qed
qed

lemma batch_loop_concat: "0 < B \<Longrightarrow> concat (batch_loop B i xs) = drop i xs"
proof (induction B i xs rule: batch_loop.induct)
  case (1 B i xs)
  show ?case
  proof (cases "i < length xs")
    case True
    with 1 have "concat (batch_loop B i xs) = take B (drop i xs) @ drop (i + B) xs"
      by (subst batch_loop.simps) simp
    also have "drop (i + B) xs = drop B (drop i xs)" by (simp add: add.commute)
    also have "take B (drop i xs) @ drop B (drop i xs) = drop i xs"
      by (rule append_take_drop_id)
    finally show ?thesis .
  next
    case False
    then show ?thesis by (subst batch_loop.simps) simp
  qed
qed

lemma batch_loop_length:
  "0 < B \<Longrightarrow> length (batch_loop B i xs) = (length xs - i + B - 1) div B"
proof (induction B i xs rule: batch_loop.induct)
  case (1 B i xs)
  show ?case
  proof (cases "i < length xs")
    case True
    with 1 have "length (batch_loop B i xs) = Suc ((length xs - (i + B) + B - 1) div B)"
      by (subst batch_loop.simps) simp
    also have "length xs - (i + B) = (length xs - i) - B" by simp
    also have "Suc ((length xs - i - B + B - 1) div B) = (length xs - i + B - 1) div B"
      using \<open>0 < B\<close> True by (intro ceil_step) simp_all
    finally show ?thesis .
  next
    case False
    with \<open>0 < B\<close> have "(length xs - i + B - 1) div B = 0" by simp
    with False show ?thesis by (subst batch_loop.simps) simp
  qed
qed

lemma batch_loop_nth:
  "k < length (batch_loop B i xs) \<Longrightarrow> batch_loop B i xs ! k = take B (drop (i + k * B) xs)"
proof (induction B i xs arbitrary: k rule: batch_loop.induct)
  case (1 B i xs)
  show ?case
  proof (cases "0 < B \<and> i < length xs")
    case True
    then have eq: "batch_loop B i xs = take B (drop i xs) # batch_loop B (i + B) xs"
      by (subst batch_loop.simps) simp
    show ?thesis
    proof (cases k)
      case 0
      with eq show ?thesis by simp
    next
      case (Suc j)
      with "1.prems" eq have "j < length (batch_loop B (i + B) xs)" by simp
      with True "1.IH" have "batch_loop B (i + B) xs ! j = take B (drop (i + B + j * B) xs)"
        by blast
      with eq Suc show ?thesis by (simp add: add.assoc)
    qed
  next
    case False
    then have "batch_loop B i xs = []" by (subst batch_loop.simps) simp
    with "1.prems" show ?thesis by simp
  qed
qed

lemma batch_loop_full:
  assumes "0 < B" "Suc k < length (batch_loop B i xs)"
  shows "length (batch_loop B i xs ! k) = B"
proof -
  from assms have k: "k < length (batch_loop B i xs)" by simp
  define n where "n = length xs - i"
  have "Suc (Suc k) \<le> (n + B - 1) div B"
    using assms by (simp add: batch_loop_length n_def)
  then have "Suc (Suc k) * B \<le> (n + B - 1) div B * B" by (rule mult_le_mono1)
  also have "\<dots> \<le> n + B - 1" by simp
  finally have "Suc k * B + B \<le> n + B - 1" by simp
  then have "k * B + B < n" using assms(1) by simp
  then have "i + k * B + B \<le> length xs" by (simp add: n_def)
  then show ?thesis using k by (simp add: batch_loop_nth)
qed

lemma batch_loop_chunk: "b \<in> set (batch_loop B i xs) \<Longrightarrow> b \<noteq> [] \<and> length b \<le> B"
proof (induction B i xs rule: batch_loop.induct)
  case (1 B i xs)
  show ?case
  proof (cases "0 < B \<and> i < length xs")
    case True
    with "1.prems" have "b = take B (drop i xs) \<or> b \<in> set (batch_loop B (i + B) xs)"
      by (subst (asm) batch_loop.simps) simp
    then show ?thesis
    proof
      assume "b = take B (drop i xs)"
      with True show ?thesis by auto
    next
      assume "b \<in> set (batch_loop B (i + B) xs)"
      with True "1.IH" show ?thesis by blast
    qed
  next
    case False
    with "1.prems" show ?thesis by (subst (asm) batch_loop.simps) simp
  qed
qed

text \<open>
  Claim C5. For a positive batch size \<open>B\<close> the batcher returns chunks whose concatenation
  is the input; every chunk is non-empty and has at most \<open>B\<close> elements; the \<open>k\<close>-th chunk is
  the slice of \<open>B\<close> elements from index \<open>k * B\<close>, so the chunks are contiguous and in the
  original order; every chunk but the last has exactly \<open>B\<close> elements; and there are
  \<open>(L + B - 1) div B\<close> chunks.
\<close>

theorem batcher_contract:
  assumes "0 < B"
  shows "\<exists>bs. batches B xs = Some bs \<and> concat bs = xs
           \<and> (\<forall>b \<in> set bs. b \<noteq> [] \<and> length b \<le> B)
           \<and> (\<forall>k < length bs. bs ! k = take B (drop (k * B) xs))
           \<and> (\<forall>k. Suc k < length bs \<longrightarrow> length (bs ! k) = B)
           \<and> length bs = total_batches (length xs) B"
proof -
  let ?bs = "batch_loop B 0 xs"
  have 1: "batches B xs = Some ?bs" using assms by (simp add: batches_def)
  have 2: "concat ?bs = xs" using assms batch_loop_concat [of B 0 xs] by simp
  have 3: "\<forall>b \<in> set ?bs. b \<noteq> [] \<and> length b \<le> B" using batch_loop_chunk by blast
  have 4: "\<forall>k < length ?bs. ?bs ! k = take B (drop (k * B) xs)"
    using batch_loop_nth [of _ B 0 xs] by simp
  have 5: "\<forall>k. Suc k < length ?bs \<longrightarrow> length (?bs ! k) = B"
    using assms batch_loop_full by blast
  have 6: "length ?bs = total_batches (length xs) B"
    using assms batch_loop_length [of B 0 xs] by (simp add: total_batches_def)
  from 1 2 3 4 5 6 show ?thesis by blast
qed

theorem batcher_contract_witness:
  "(0::nat) < 2
   \<and> (\<exists>bs. batches 2 ''abcde'' = Some bs \<and> concat bs = ''abcde''
          \<and> (\<forall>b \<in> set bs. b \<noteq> [] \<and> length b \<le> 2)
          \<and> (\<forall>k < length bs. bs ! k = take 2 (drop (k * 2) ''abcde''))
          \<and> (\<forall>k. Suc k < length bs \<longrightarrow> length (bs ! k) = 2)
          \<and> length bs = total_batches (length ''abcde'') 2)"
proof -
  have h: "(0::nat) < 2" by simp
  from batcher_contract [OF h, of "''abcde''"] h show ?thesis by blast
qed

section \<open>Properties of the paginators\<close>


lemma present_tracks_append:
  "present_tracks (a @ b) = present_tracks a @ present_tracks b"
  by (simp add: present_tracks_def map_filter_def)

lemma take_drop_page: "take n (drop i xs) @ drop (i + n) xs = drop i xs"
proof -
  have "drop (i + n) xs = drop n (drop i xs)" by (simp add: add.commute)
  then show ?thesis by (simp only: append_take_drop_id)
qed

lemma present_tracks_page:
  "present_tracks (take n (drop i xs)) @ present_tracks (drop (i + n) xs)
     = present_tracks (drop i xs)"
  by (simp only: present_tracks_append [symmetric] take_drop_page)



lemma length_present_tracks: "length (present_tracks xs) \<le> length xs"
  unfolding present_tracks_def map_filter_def by simp

lemma fake_source_items: "resp_items (fake_source P xs offset) = take P (drop offset xs)"
  by (simp add: fake_source_def)











lemma remove_pages_stop:
  "length (resp_items (fetch offset)) < 100
   \<Longrightarrow> remove_pages fetch offset acc w
         = Some (acc @ map ref_id (present_tracks (resp_items (fetch offset))), called w)"
  by (subst remove_pages.simps) (simp add: Let_def)

lemma remove_pages_continue:
  "\<not> length (resp_items (fetch offset)) < 100
   \<Longrightarrow> remove_pages fetch offset acc w
         = remove_pages fetch (offset + 100)
             (acc @ map ref_id (present_tracks (resp_items (fetch offset)))) (called w)"
  by (subst remove_pages.simps) (simp add: Let_def)



lemma remove_pages_fake:
  "remove_pages (fake_source 100 xs) offset acc w
     = Some (acc @ map ref_id (present_tracks (drop offset xs)),
             w\<lparr>api_calls := api_calls w + ((length xs - offset) div 100 + 1)\<rparr>)"
proof (induction "length xs - offset" arbitrary: offset acc w rule: less_induct)
  case less
  let ?f = "fake_source 100 xs"
  have len: "length (resp_items (?f offset)) = min 100 (length xs - offset)"
    by (simp add: fake_source_items min.commute)
  show ?case
  proof (cases "length xs - offset < 100")
    case True
    then have whole: "take 100 (drop offset xs) = drop offset xs" by simp
    from True have "length (resp_items (?f offset)) < 100" by (simp add: len)
    then have "remove_pages ?f offset acc w
        = Some (acc @ map ref_id (present_tracks (resp_items (?f offset))), called w)"
      by (rule remove_pages_stop)
    moreover from True have "(length xs - offset) div 100 = 0" by simp
    ultimately show ?thesis by (simp add: fake_source_items whole called_def)
  next
    case False
    then have "\<not> length (resp_items (?f offset)) < 100" by (simp add: len)
    then have step: "remove_pages ?f offset acc w
        = remove_pages ?f (offset + 100)
            (acc @ map ref_id (present_tracks (resp_items (?f offset)))) (called w)"
      by (rule remove_pages_continue)
    from False have m: "length xs - (offset + 100) < length xs - offset" by simp
    from False have ge: "100 \<le> length xs - offset" by simp
    have "(length xs - offset) div 100 = Suc ((length xs - offset - 100) div 100)"
      using ge le_div_geq [of 100 "length xs - offset"] by simp
    also have "length xs - offset - 100 = length xs - (offset + 100)" by simp
    finally have dv: "(length xs - offset) div 100 = Suc ((length xs - (offset + 100)) div 100)" .
    have "remove_pages ?f offset acc w
        = remove_pages ?f (offset + 100)
            (acc @ map ref_id (present_tracks (take 100 (drop offset xs)))) (called w)"
      using step by (simp only: fake_source_items)
    also have "\<dots> = Some ((acc @ map ref_id (present_tracks (take 100 (drop offset xs))))
                        @ map ref_id (present_tracks (drop (offset + 100) xs)),
                      (called w)\<lparr>api_calls := api_calls (called w)
                                   + ((length xs - (offset + 100)) div 100 + 1)\<rparr>)"
      by (rule less.hyps [OF m])
    also have "(acc @ map ref_id (present_tracks (take 100 (drop offset xs))))
                 @ map ref_id (present_tracks (drop (offset + 100) xs))
               = acc @ map ref_id (present_tracks (drop offset xs))"
      by (simp only: append_assoc map_append [symmetric] present_tracks_page)
    also have "(called w)\<lparr>api_calls := api_calls (called w)
                                   + ((length xs - (offset + 100)) div 100 + 1)\<rparr>
               = w\<lparr>api_calls := api_calls w + ((length xs - offset) div 100 + 1)\<rparr>"
      by (simp add: dv called_def)
    finally show ?thesis .
  qed
qed










section \<open>Properties of the deduplication\<close>






section \<open>Properties of the removal by id\<close>

lemma remove_batches_written:
  "written (remove_batches sp_remove len n bs w) = written w @ bs"
proof (induction bs arbitrary: n w)
  case Nil
  show ?case by simp
next
  case (Cons b bs)
  show ?case
    by (cases "sp_remove (api_calls w) b") (simp_all add: Cons.IH wrote_def print_def sleep_def)
qed

lemma batch_loop_Nil: "batch_loop B i [] = []"
  by (simp add: batch_loop.simps [of B i "[]"])

text \<open>
  Claim C7. The batches \<^verbatim>\<open>remove_tracks_from_playlist\<close> passes to the removal call are
  the batches of the uris \<^verbatim>\<open>spotify:track:<id>\<close> of the requested ids that are in the
  set of the fetched ids, in the order of the request; together they hold exactly these
  uris. An id that is not in the set appears in no call and in no message, and when no
  requested id is in the set there is no call. With the playlist a, b, c and the request
  b, d the one call removes \<^verbatim>\<open>spotify:track:b\<close>.
\<close>

theorem remove_by_id:
  "written (remove_listed_tracks sp_remove fetched requested w)
     = written w
       @ batch_loop 100 0
           (map track_uri (filter (\<lambda>track_id. Some track_id \<in> set fetched) requested))
   \<and> concat (written (remove_listed_tracks sp_remove fetched requested w))
     = concat (written w)
       @ map track_uri (filter (\<lambda>track_id. Some track_id \<in> set fetched) requested)
   \<and> ((\<forall>track_id \<in> set requested. Some track_id \<notin> set fetched) \<longrightarrow>
        remove_listed_tracks sp_remove fetched requested w = print No_matching_tracks w)
   \<and> remove_tracks_from_playlist (fake_source 100 xs) sp_remove requested w
     = Some (remove_listed_tracks sp_remove (map ref_id (present_tracks xs)) requested
               (w\<lparr>api_calls := api_calls w + (length xs div 100 + 1)\<rparr>))
   \<and> remove_tracks_from_playlist
       (fake_source 100 [playlist_item ''a'', playlist_item ''b'', playlist_item ''c''])
       always_returns [''b'', ''d''] world0
     = Some \<lparr>api_calls = 2, written = [[''spotify:track:b'']], slept = [1],
             printed = [Removing_tracks 1, Removed_batch 1 1, Removed_tracks 1]\<rparr>"
proof -
  let ?uris = "map track_uri (filter (\<lambda>track_id. Some track_id \<in> set fetched) requested)"
  have 1: "written (remove_listed_tracks sp_remove fetched requested w)
             = written w @ batch_loop 100 0 ?uris"
    by (simp add: remove_listed_tracks_def Let_def remove_batches_written print_def
          batch_loop_Nil)
  have "concat (batch_loop 100 0 ?uris) = ?uris"
    using batch_loop_concat [of 100 0 ?uris] by simp
  with 1 have 2: "concat (written (remove_listed_tracks sp_remove fetched requested w))
                    = concat (written w) @ ?uris"
    by simp
  have 3: "(\<forall>track_id \<in> set requested. Some track_id \<notin> set fetched) \<longrightarrow>
        remove_listed_tracks sp_remove fetched requested w = print No_matching_tracks w"
  proof
    assume "\<forall>track_id \<in> set requested. Some track_id \<notin> set fetched"
    then have "filter (\<lambda>track_id. Some track_id \<in> set fetched) requested = []"
      by (simp add: filter_empty_conv)
    then show "remove_listed_tracks sp_remove fetched requested w = print No_matching_tracks w"
      by (simp add: remove_listed_tracks_def)
  qed
  have 4: "remove_tracks_from_playlist (fake_source 100 xs) sp_remove requested w
     = Some (remove_listed_tracks sp_remove (map ref_id (present_tracks xs)) requested
               (w\<lparr>api_calls := api_calls w + (length xs div 100 + 1)\<rparr>))"
    using remove_pages_fake [of xs 0 "[]" w]
    by (simp add: remove_tracks_from_playlist_def remove_get_playlist_tracks_def)
  have 5: "remove_tracks_from_playlist
       (fake_source 100 [playlist_item ''a'', playlist_item ''b'', playlist_item ''c''])
       always_returns [''b'', ''d''] world0
     = Some \<lparr>api_calls = 2, written = [[''spotify:track:b'']], slept = [1],
             printed = [Removing_tracks 1, Removed_batch 1 1, Removed_tracks 1]\<rparr>"
    by code_simp
  from 1 2 3 4 5 show ?thesis by (simp only: simp_thms)
qed

theorem remove_by_id_witness:
  "Some ''d'' \<notin> set [Some ''a'', Some ''b'', Some ''c'']
   \<and> remove_listed_tracks always_returns [Some ''a'', Some ''b'', Some ''c''] [''d''] world0
       = print No_matching_tracks world0
   \<and> written (remove_listed_tracks always_returns [Some ''a'', Some ''b'', Some ''c'']
                [''d''] world0)
       = written world0
         @ batch_loop 100 0
             (map track_uri
                (filter (\<lambda>track_id. Some track_id \<in> set [Some ''a'', Some ''b'', Some ''c''])
                   [''d'']))"
proof -
  have h: "\<forall>track_id \<in> set [''d'']. Some track_id \<notin> set [Some ''a'', Some ''b'', Some ''c'']"
    by simp
  have n: "Some ''d'' \<notin> set [Some ''a'', Some ''b'', Some ''c'']" by simp
  from remove_by_id [of always_returns "[Some ''a'', Some ''b'', Some ''c'']" "[''d'']" world0] h n
  show ?thesis by blast
qed

section \<open>Properties of the retry wrapper\<close>

declare process_track_loop.simps [simp del]
declare add_batch_loop.simps [simp del]


lemma handle_rate_limit_other:
  "http_status \<noteq> 429
   \<Longrightarrow> handle_rate_limit http_status header c R ctx w = (Inr R, print (Error_in ctx) w)"
  by (simp add: handle_rate_limit_def)

lemma process_track_loop_exhausted:
  "\<not> c < R \<Longrightarrow> process_track_loop sp_track track_id kw R c w = (Inr None, w)"
  by (subst process_track_loop.simps) simp



lemma process_track_loop_error:
  "c < R \<Longrightarrow> sp_track (api_calls w) track_id = SpotifyException http_status header
   \<Longrightarrow> http_status \<noteq> 429
   \<Longrightarrow> process_track_loop sp_track track_id kw R c w
         = (Inr None, print (Error_in (Processing_track track_id)) (called w))"
  by (subst process_track_loop.simps)
     (simp add: handle_rate_limit_other process_track_loop_exhausted)

lemma process_track_loop_unexpected:
  "c < R \<Longrightarrow> sp_track (api_calls w) track_id = OtherException
   \<Longrightarrow> process_track_loop sp_track track_id kw R c w
         = (Inr None, print (Unexpected_error (Processing_track track_id)) (called w))"
  by (subst process_track_loop.simps) simp




section \<open>Errors other than the rate limit\<close>

text \<open>
  In the wrapper an error that is not a rate limit ends the loop after the one call, with
  a message (lemmas \<open>process_track_loop_error\<close> and \<open>process_track_loop_unexpected\<close>).

  Claim C2. The removal loop of \<^verbatim>\<open>clean.py\<close> calls the remote side outside any
  \<^verbatim>\<open>try\<close>. On a playlist of 102 copies of one track it has 101 duplicates to remove, in
  two batches; when the first removal call fails with status 500 the exception leaves the
  function after that one call, so the second batch is never sent and nothing is printed
  for the failure. The same loop in \<^verbatim>\<open>remove.py\<close> prints the error and goes on to the
  second batch.
\<close>

theorem clean_aborts_on_failed_removal:
  "remove_duplicates_of fails_first copies_102 world0
     = (Some (Spotify_error 500),
        \<lparr>api_calls = 1, written = [replicate 100 ''spotify:track:a''], slept = [],
         printed = [Found_duplicates 101]\<rparr>)
   \<and> remove_listed_tracks fails_first [Some ''a''] (replicate 101 ''a'') world0
     = \<lparr>api_calls = 2,
        written = [replicate 100 ''spotify:track:a'', [''spotify:track:a'']],
        slept = [1],
        printed = [Removing_tracks 101, Error_removing_batch, Removed_batch 2 2,
                   Removed_tracks 101]\<rparr>"
  by code_simp

section \<open>Properties of the exclusion predicate\<close>

lemma str_in_map: "str_in k s \<Longrightarrow> str_in (map f k) (map f s)"
proof -
  assume "str_in k s"
  then obtain ps ss where "s = ps @ k @ ss" by (auto simp: str_in_def sublist_def)
  then have "map f s = map f ps @ map f k @ map f ss" by simp
  then show ?thesis unfolding str_in_def sublist_def by blast
qed

lemma str_in_trans: "str_in a b \<Longrightarrow> str_in b c \<Longrightarrow> str_in a c"
  unfolding str_in_def by (rule sublist_order.order.trans)

lemma lower_append: "lower (a @ b) = lower a @ lower b"
  by (simp add: lower_def)

lemma lower_join: "lower (join sep xs) = join (lower sep) (map lower xs)"
  by (induction sep xs rule: join.induct) (simp_all add: lower_append, simp add: lower_def)

lemma lower_space: "lower '' '' = '' ''"
  by code_simp

lemma should_exclude_track_fields:
  "should_exclude_track t keyword \<longleftrightarrow>
     str_in keyword (lower (track_name t))
     \<or> str_in keyword (lower (album_name (track_album t)))
     \<or> str_in keyword (lower (join '' '' (map artist_name (track_artists t))))
     \<or> str_in keyword (lower (record_label t))"
proof -
  have "join '' '' (map (\<lambda>a. lower (artist_name a)) (track_artists t))
          = lower (join '' '' (map artist_name (track_artists t)))"
    by (simp add: lower_join lower_space comp_def)
  then show ?thesis by (simp add: should_exclude_track_def Let_def)
qed

lemma lofi_in_lower: "str_in ''Lofi Beats'' s \<Longrightarrow> str_in ''lofi'' (lower s)"
proof -
  assume "str_in ''Lofi Beats'' s"
  then have "str_in (lower ''Lofi Beats'') (lower s)" unfolding lower_def by (rule str_in_map)
  moreover have "str_in ''lofi'' (lower ''Lofi Beats'')" by code_simp
  ultimately show ?thesis by (rule str_in_trans [rotated])
qed

text \<open>
  Claim C8. The predicate lower-cases the four fields and tests the keyword as it was
  given, so the test is case-insensitive in the fields only: the keyword "Lofi" occurs,
  case-insensitively, in the album name "Lofi Beats" of the sample track, and the
  predicate does not hold, so the track is kept.
\<close>

theorem should_exclude_track_misses_capitalised_keyword:
  "ci_in ''Lofi'' (album_name (track_album lofi_beats_track))
   \<and> \<not> should_exclude_track lofi_beats_track ''Lofi''"
  by code_simp

section \<open>Properties of the playlist-id extraction\<close>

lemma extract_playlist_id_examples:
  "extract_playlist_id ''https://open.spotify.com/playlist/37i9dQZF1DXcBWIGoYBM5M?si=x''
     = Inr ''37i9dQZF1DXcBWIGoYBM5M''"
  "extract_playlist_id ''spotify:playlist:37i9dQZF1DXcBWIGoYBM5M'' = Inr ''37i9dQZF1DXcBWIGoYBM5M''"
  "extract_playlist_id ''37i9dQZF1DXcBWIGoYBM5M'' = Inr ''37i9dQZF1DXcBWIGoYBM5M''"
  "extract_playlist_id ''37i9dQZF1DXcBWIGoYBM5'' = Inl Invalid_reference_format"
  "extract_playlist_id [] = Inl Please_provide_url"
  "extract_playlist_id ''https://open.spotify.com/playlist/'' = Inl Invalid_url_format"
  by code_simp+

lemma length_strip_le: "length (strip s) \<le> length s"
proof -
  have "length (strip s) = length (dropWhile is_space (rev (dropWhile is_space s)))"
    by (simp add: strip_def)
  also have "\<dots> \<le> length (rev (dropWhile is_space s))" by (rule length_dropWhile_le)
  also have "\<dots> \<le> length s" using length_dropWhile_le [of is_space s] by simp
  finally show ?thesis .
qed

lemma extract_short_rejected:
  assumes "url \<noteq> []" "length url < 22" "\<not> startswith url ''spotify:playlist:''"
    "\<not> str_in ''open.spotify.com'' url"
  shows "extract_playlist_id url = Inl Invalid_reference_format"
  using assms length_strip_le [of url] by (simp add: extract_playlist_id_def)

text \<open>
  Claim C9. The docstring and the final error message name three valid forms, and the URL
  branch has a handler for a malformed link. The handler is reached only by an empty
  identifier: \<^verbatim>\<open>url.split('playlist/')[-1]\<close> never raises, so a link on the host that has
  no \<^verbatim>\<open>playlist/\<close> segment is returned whole as the identifier instead of being rejected.
\<close>

theorem extract_playlist_id_accepts_album_link:
  "extract_playlist_id ''https://open.spotify.com/album/4aawyAB9vmqN3uQ7FjRGTy''
     = Inr ''https://open.spotify.com/album/4aawyAB9vmqN3uQ7FjRGTy''"
  by code_simp

end
